theory Spec2Isabelle
  imports Main "HOL-Library.AList" "HOL-Library.Sublist"
begin

section \<open>Python values, exceptions and dictionaries\<close>

text \<open>
  The program is dynamically typed: a field of a \<open>Taxon\<close> holds whatever the caller or the
  JSON file supplied. The values that occur are \<open>None\<close>, strings, integers and lists;
  Python's \<open>==\<close> on them is structural equality, and a string never equals an integer.
\<close>

datatype pyval = PNone | PStr string | PInt int | PList "pyval list"

text \<open>Truth value of an object in a condition (\<open>if x\<close>, \<open>not x\<close>).\<close>

fun truthy :: "pyval \<Rightarrow> bool" where
  "truthy PNone = False"
| "truthy (PStr s) = (s \<noteq> [])"
| "truthy (PInt i) = (i \<noteq> 0)"
| "truthy (PList xs) = (xs \<noteq> [])"

text \<open>
  Exceptions of Python and of the libraries, and the outcome of a call of the repository:
  one of its own two exception classes, or another exception that nothing catches.
\<close>

datatype py_exn = TypeError | IndexError | KeyError | AttributeError | ValueError
  | HTTPError | OtherError string

datatype error = TaxonNotFound | TaxonInvalidInput | Uncaught py_exn

fun py_len :: "pyval \<Rightarrow> error + nat" where
  "py_len (PList xs) = Inr (length xs)"
| "py_len (PStr s) = Inr (length s)"
| "py_len PNone = Inl (Uncaught TypeError)"
| "py_len (PInt i) = Inl (Uncaught TypeError)"

text \<open>Indexing \<open>v[i]\<close> with a non-negative index.\<close>

fun py_getitem :: "pyval \<Rightarrow> nat \<Rightarrow> error + pyval" where
  "py_getitem (PList xs) i = (if i < length xs then Inr (xs ! i) else Inl (Uncaught IndexError))"
| "py_getitem (PStr s) i = (if i < length s then Inr (PStr [s ! i]) else Inl (Uncaught IndexError))"
| "py_getitem PNone i = Inl (Uncaught TypeError)"
| "py_getitem (PInt k) i = Inl (Uncaught TypeError)"

text \<open>
  A dictionary is an association list in insertion order; \<open>d[k]\<close> raises \<open>KeyError\<close> on a
  missing key, and \<open>d[k] = v\<close> is \<^const>\<open>AList.update\<close> (replace in place, else append).
\<close>

type_synonym ('k, 'v) dict = "('k \<times> 'v) list"

definition dict_get :: "('k, 'v) dict \<Rightarrow> 'k \<Rightarrow> py_exn + 'v" where
  "dict_get d k = (case map_of d k of None \<Rightarrow> Inl KeyError | Some v \<Rightarrow> Inr v)"

text \<open>\<open>s.strip(chars)\<close>: drop from both ends every character that occurs in \<open>chars\<close>.\<close>

definition py_strip :: "string \<Rightarrow> string \<Rightarrow> string" where
  "py_strip chars s =
     rev (dropWhile (\<lambda>c. c \<in> set chars) (rev (dropWhile (\<lambda>c. c \<in> set chars) s)))"

text \<open>\<open>s.split('; ')\<close>; the first argument collects the current piece, reversed.\<close>

fun split_semi :: "string \<Rightarrow> string \<Rightarrow> string list" where
  "split_semi cur [] = [rev cur]"
| "split_semi cur [c] = [rev (c # cur)]"
| "split_semi cur (c # d # cs) =
     (if c = CHR '';'' \<and> d = CHR '' '' then rev cur # split_semi [] cs
      else split_semi (c # cur) (d # cs))"

text \<open>\<open>min(xs)\<close> raises \<open>ValueError\<close> on an empty list.\<close>

fun py_min :: "int list \<Rightarrow> py_exn + int" where
  "py_min [] = Inl ValueError"
| "py_min (x # xs) = Inr (fold min xs x)"

section \<open>taxon.py\<close>

text \<open>
  The attributes of a \<open>Taxon\<close> object. \<open>dist_to_root\<close> is set only by the constructor's
  NCBI path; \<open>None\<close> stands for an object without that attribute.
\<close>

record taxon =
  taxid :: pyval
  scientific_name :: pyval
  lineage_taxa_name :: pyval
  lineage_taxa_id :: pyval
  parent_taxid :: pyval
  dist_to_root :: "int option"

text \<open>
  The NCBI service is a parameter. \<open>esearch w term\<close> is what \<open>Entrez.read(Entrez.esearch(...))\<close>
  gives: an exception, or the record's \<open>IdList\<close> (\<open>None\<close> when the record has no such key).
  \<open>efetch w id\<close> is what \<open>Entrez.read(Entrez.efetch(...))\<close> gives: an exception, or the
  list of entries. An entry is a dictionary whose keys may be missing; an item of
  \<open>LineageEx\<close> is a dictionary that may lack \<open>TaxId\<close>.
\<close>

record entry =
  ScientificName :: "string option"
  Lineage :: "string option"
  ParentTaxId :: "string option"
  LineageEx :: "string option list option"

record ncbi =
  esearch :: "pyval \<Rightarrow> py_exn + string list option"
  efetch :: "pyval \<Rightarrow> py_exn + entry list"

text \<open>
  \<open>Taxon.get_taxid_from_name\<close>: the two Entrez calls are outside the \<open>try\<close>; inside it,
  \<open>record["IdList"][0]\<close> raises \<open>KeyError\<close> (not caught) or \<open>IndexError\<close> (caught).
\<close>

definition get_taxid_from_name :: "ncbi \<Rightarrow> pyval \<Rightarrow> error + pyval" where
  "get_taxid_from_name w name =
     (case esearch w name of
        Inl e \<Rightarrow> Inl (Uncaught e)
      | Inr None \<Rightarrow> Inl (Uncaught KeyError)
      | Inr (Some []) \<Rightarrow> Inl TaxonNotFound
      | Inr (Some (x # _)) \<Rightarrow> Inr (PStr x))"

text \<open>
  Lines 82 to 87: fetch, read and \<open>record[0]\<close> under
  \<open>except (TypeError, IndexError, HTTPError)\<close>.
\<close>

definition fetch_entry :: "ncbi \<Rightarrow> pyval \<Rightarrow> error + entry" where
  "fetch_entry w tid =
     (case efetch w tid of
        Inl e \<Rightarrow> (if e = TypeError \<or> e = IndexError \<or> e = HTTPError then Inl TaxonNotFound
                  else Inl (Uncaught e))
      | Inr [] \<Rightarrow> Inl TaxonNotFound
      | Inr (en # _) \<Rightarrow> Inr en)"

text \<open>Lines 92 to 96: the identifiers of \<open>LineageEx\<close> and the taxon's own, or the latter alone.\<close>

definition lineage_ids_of :: "entry \<Rightarrow> pyval \<Rightarrow> pyval list" where
  "lineage_ids_of en tid =
     (case LineageEx en of
        None \<Rightarrow> [tid]
      | Some items \<Rightarrow>
          (case those items of None \<Rightarrow> [tid] | Some xs \<Rightarrow> map PStr xs @ [tid]))"

text \<open>Lines 88 to 101: the attributes set from the fetched entry.\<close>

definition taxon_of_entry :: "pyval \<Rightarrow> entry \<Rightarrow> error + taxon" where
  "taxon_of_entry tid en =
     (let sn = (case ScientificName en of None \<Rightarrow> PNone | Some s \<Rightarrow> PStr s) in
      case Lineage en of
        None \<Rightarrow> Inl (Uncaught AttributeError)
      | Some l \<Rightarrow>
          (case ParentTaxId en of
             None \<Rightarrow> Inl (Uncaught KeyError)
           | Some p \<Rightarrow>
               (let ids = lineage_ids_of en tid in
                Inr \<lparr>taxid = tid, scientific_name = sn,
                     lineage_taxa_name = PList (map PStr (split_semi [] l) @ [sn]),
                     lineage_taxa_id = PList ids, parent_taxid = PStr p,
                     dist_to_root = Some (if tid = PInt 1 then 0 else int (length ids))\<rparr>)))"

text \<open>
  The \<open>else\<close> branch of \<open>Taxon.__init__\<close> (lines 70 to 101). Setting \<open>Entrez.email\<close> and
  the log lines do not influence what is returned and are left out.
\<close>

definition taxon_from_ncbi :: "ncbi \<Rightarrow> pyval \<Rightarrow> pyval \<Rightarrow> error + taxon" where
  "taxon_from_ncbi w tid name =
     (if \<not> truthy tid \<and> \<not> truthy name then Inl TaxonInvalidInput
      else
        case (if \<not> truthy tid then get_taxid_from_name w name else Inr tid) of
          Inl e \<Rightarrow> Inl e
        | Inr t \<Rightarrow> (case fetch_entry w t of Inl e \<Rightarrow> Inl e | Inr en \<Rightarrow> taxon_of_entry t en))"

text \<open>\<open>Taxon.__init__\<close>; \<open>Inl\<close> is the exception raised, \<open>Inr\<close> the object built.\<close>

definition Taxon_init ::
  "ncbi \<Rightarrow> pyval \<Rightarrow> pyval \<Rightarrow> pyval \<Rightarrow> pyval \<Rightarrow> pyval \<Rightarrow> pyval \<Rightarrow> error + taxon" where
  "Taxon_init w tid name lnames lids parent useremail =
     (if truthy tid \<and> truthy name \<and> truthy lnames \<and> truthy parent \<and> truthy lids
      then Inr \<lparr>taxid = tid, scientific_name = name, lineage_taxa_name = lnames,
                lineage_taxa_id = lids, parent_taxid = parent, dist_to_root = None\<rparr>
      else taxon_from_ncbi w tid name)"

text \<open>
  The two \<open>while\<close> loops of \<open>get_distance_between_two_taxa\<close> differ only in their bound:
  \<open>i\<close> runs while \<open>i < bound\<close> and the two lineages agree at \<open>i\<close>; \<open>common_tax_id\<close>
  collects the agreeing elements.
\<close>

function common_loop :: "pyval \<Rightarrow> pyval \<Rightarrow> nat \<Rightarrow> pyval list \<Rightarrow> nat \<Rightarrow> error + pyval list" where
  "common_loop a b bound common_tax_id i =
     (if i < bound then
        (case py_getitem a i of
           Inl e \<Rightarrow> Inl e
         | Inr x \<Rightarrow>
             (case py_getitem b i of
                Inl e \<Rightarrow> Inl e
              | Inr y \<Rightarrow>
                  if x = y then common_loop a b bound (common_tax_id @ [x]) (i + 1)
                  else Inr common_tax_id))
      else Inr common_tax_id)"
  by pat_completeness auto
termination
  by (relation "measure (\<lambda>(a, b, bound, c, i). bound - i)") auto

text \<open>
  The \<open>else\<close> branch (lines 135 to 169) up to the local variables
  \<open>(common_tax_id, up_distance, down_distance)\<close>.
\<close>

definition lca_distances :: "taxon \<Rightarrow> taxon \<Rightarrow> error + (pyval list \<times> int \<times> int)" where
  "lca_distances self anothertaxon =
     (case py_len (lineage_taxa_id self) of
        Inl e \<Rightarrow> Inl e
      | Inr n \<Rightarrow>
          (case py_len (lineage_taxa_id anothertaxon) of
             Inl e \<Rightarrow> Inl e
           | Inr m \<Rightarrow>
               (case common_loop (lineage_taxa_id self) (lineage_taxa_id anothertaxon)
                       (if n \<le> m then n else m) [] 0 of
                  Inl e \<Rightarrow> Inl e
                | Inr common_tax_id \<Rightarrow>
                    (let up_distance = int n - int (length common_tax_id);
                         down_distance = (if up_distance \<noteq> 0
                                          then int m - int (length common_tax_id) else 0)
                     in Inr (common_tax_id, up_distance, down_distance)))))"

definition get_distance_between_two_taxa :: "taxon \<Rightarrow> taxon \<Rightarrow> int \<Rightarrow> error + int" where
  "get_distance_between_two_taxa self anothertaxon penalty_price =
     (if taxid anothertaxon = PInt 1 then
        (case py_len (lineage_taxa_id self) of Inl e \<Rightarrow> Inl e | Inr n \<Rightarrow> Inr (int n))
      else
        (case lca_distances self anothertaxon of
           Inl e \<Rightarrow> Inl e
         | Inr (common_tax_id, up_distance, down_distance) \<Rightarrow>
             Inr (up_distance + down_distance * penalty_price)))"

section \<open>dist_pwy_rxn.py\<close>

text \<open>
  \<open>turn_taxa_into_taxonomic_info\<close>: the loop over the set of labels, given in the order
  of iteration. Only \<open>TaxonNotFound\<close> is caught; any other exception ends the call. The
  pause between two requests is left out.
\<close>

fun turn_taxa_loop ::
  "ncbi \<Rightarrow> pyval \<Rightarrow> string list \<Rightarrow> (string, taxon) dict \<Rightarrow> error + (string, taxon) dict" where
  "turn_taxa_loop w email [] tax_info = Inr tax_info"
| "turn_taxa_loop w email (elem # rest) tax_info =
     (let tax_number = py_strip ''TAX-'' elem in
      case Taxon_init w (PStr tax_number) PNone PNone PNone PNone email of
        Inr taxon \<Rightarrow> turn_taxa_loop w email rest (AList.update elem taxon tax_info)
      | Inl TaxonNotFound \<Rightarrow> turn_taxa_loop w email rest tax_info
      | Inl e \<Rightarrow> Inl e)"

definition turn_taxa_into_taxonomic_info ::
  "ncbi \<Rightarrow> string list \<Rightarrow> pyval \<Rightarrow> error + (string, taxon) dict" where
  "turn_taxa_into_taxonomic_info w set_of_taxa email = turn_taxa_loop w email set_of_taxa []"

text \<open>
  \<open>MyEncoder.default\<close> writes an object as its \<open>__dict__\<close>, the attributes in the order
  in which the constructor set them: the full-field branch sets \<open>lineage_taxa_id\<close> before
  \<open>parent_taxid\<close>, the NCBI path after it and then \<open>dist_to_root\<close>. The file is modelled by
  the JSON document it holds, a dictionary of dictionaries; \<open>json.dumps\<close> followed by
  \<open>json.load\<close> is taken to give the document back.
\<close>

definition taxon_dict :: "taxon \<Rightarrow> (string, pyval) dict" where
  "taxon_dict t =
     (case dist_to_root t of
        None \<Rightarrow>
          [(''taxid'', taxid t), (''scientific_name'', scientific_name t),
           (''lineage_taxa_name'', lineage_taxa_name t),
           (''lineage_taxa_id'', lineage_taxa_id t), (''parent_taxid'', parent_taxid t)]
      | Some d \<Rightarrow>
          [(''taxid'', taxid t), (''scientific_name'', scientific_name t),
           (''lineage_taxa_name'', lineage_taxa_name t), (''parent_taxid'', parent_taxid t),
           (''lineage_taxa_id'', lineage_taxa_id t), (''dist_to_root'', PInt d)])"

type_synonym json_doc = "(string, (string, pyval) dict) dict"

definition write_json :: "(string, taxon) dict \<Rightarrow> json_doc" where
  "write_json data = map (\<lambda>(k, t). (k, taxon_dict t)) data"

text \<open>
  \<open>read_json\<close>: one constructor call per key of the document. The argument
  \<open>lineage_taxa_id\<close> is read from the key \<open>"lineage_taxa_name"\<close> (line 116).
\<close>

definition taxon_of_json :: "ncbi \<Rightarrow> (string, pyval) dict \<Rightarrow> error + taxon" where
  "taxon_of_json w d =
     (case dict_get d ''taxid'' of Inl e \<Rightarrow> Inl (Uncaught e) | Inr a1 \<Rightarrow>
     (case dict_get d ''scientific_name'' of Inl e \<Rightarrow> Inl (Uncaught e) | Inr a2 \<Rightarrow>
     (case dict_get d ''lineage_taxa_name'' of Inl e \<Rightarrow> Inl (Uncaught e) | Inr a3 \<Rightarrow>
     (case dict_get d ''lineage_taxa_name'' of Inl e \<Rightarrow> Inl (Uncaught e) | Inr a4 \<Rightarrow>
     (case dict_get d ''parent_taxid'' of Inl e \<Rightarrow> Inl (Uncaught e) | Inr a5 \<Rightarrow>
        Taxon_init w a1 a2 a3 a4 a5 PNone)))))"

fun read_json_loop ::
  "ncbi \<Rightarrow> json_doc \<Rightarrow> string list \<Rightarrow> (string, taxon) dict \<Rightarrow> error + (string, taxon) dict" where
  "read_json_loop w data [] data_obj = Inr data_obj"
| "read_json_loop w data (elem # rest) data_obj =
     (case dict_get data elem of
        Inl e \<Rightarrow> Inl (Uncaught e)
      | Inr d \<Rightarrow>
          (case taxon_of_json w d of
             Inl e \<Rightarrow> Inl e
           | Inr t \<Rightarrow> read_json_loop w data rest (AList.update elem t data_obj)))"

definition read_json :: "ncbi \<Rightarrow> json_doc \<Rightarrow> error + (string, taxon) dict" where
  "read_json w data = read_json_loop w data (map fst data) []"

text \<open>
  \<open>associate_rxn_dist\<close>. The list comprehension of line 156 raises \<open>KeyError\<close> at the
  first candidate without a distance; the loop of lines 159 to 163 skips such candidates.
\<close>

fun comprehension_dist :: "(string, int) dict \<Rightarrow> string list \<Rightarrow> py_exn + int list" where
  "comprehension_dist taxdistdata [] = Inr []"
| "comprehension_dist taxdistdata (txn # rest) =
     (case dict_get taxdistdata txn of
        Inl e \<Rightarrow> Inl e
      | Inr d \<Rightarrow>
          (case comprehension_dist taxdistdata rest of
             Inl e \<Rightarrow> Inl e
           | Inr ds \<Rightarrow> Inr (d # ds)))"

fun skipping_dist :: "(string, int) dict \<Rightarrow> string list \<Rightarrow> int list \<Rightarrow> error + int list" where
  "skipping_dist taxdistdata [] rxn_dist = Inr rxn_dist"
| "skipping_dist taxdistdata (txn # rest) rxn_dist =
     (case dict_get taxdistdata txn of
        Inr d \<Rightarrow> skipping_dist taxdistdata rest (rxn_dist @ [d])
      | Inl KeyError \<Rightarrow> skipping_dist taxdistdata rest rxn_dist
      | Inl e \<Rightarrow> Inl (Uncaught e))"

text \<open>Lines 164 to 167: the minimum, or 1000 when \<open>min\<close> raises \<open>ValueError\<close>.\<close>

definition min_or_sentinel :: "int list \<Rightarrow> error + int" where
  "min_or_sentinel rxn_dist =
     (case py_min rxn_dist of
        Inr m \<Rightarrow> Inr m
      | Inl ValueError \<Rightarrow> Inr 1000
      | Inl e \<Rightarrow> Inl (Uncaught e))"

text \<open>Lines 155 to 167 for one reaction with candidate labels \<open>txns\<close>.\<close>

definition rxn_min_dist :: "(string, int) dict \<Rightarrow> string list \<Rightarrow> error + int" where
  "rxn_min_dist taxdistdata txns =
     (case (case comprehension_dist taxdistdata txns of
              Inr ds \<Rightarrow> Inr ds
            | Inl KeyError \<Rightarrow> skipping_dist taxdistdata txns []
            | Inl e \<Rightarrow> Inl (Uncaught e)) of
        Inl e \<Rightarrow> Inl e
      | Inr rxn_dist \<Rightarrow> min_or_sentinel rxn_dist)"

fun associate_loop ::
  "(string, string list) dict \<Rightarrow> (string, int) dict \<Rightarrow> string list \<Rightarrow> (string, int) dict
     \<Rightarrow> error + (string, int) dict" where
  "associate_loop rxndata taxdistdata [] all_rxn_dist = Inr all_rxn_dist"
| "associate_loop rxndata taxdistdata (rxn # rest) all_rxn_dist =
     (case dict_get rxndata rxn of
        Inl e \<Rightarrow> Inl (Uncaught e)
      | Inr txns \<Rightarrow>
          (case rxn_min_dist taxdistdata txns of
             Inl e \<Rightarrow> Inl e
           | Inr m \<Rightarrow>
               associate_loop rxndata taxdistdata rest (AList.update rxn m all_rxn_dist)))"

definition associate_rxn_dist ::
  "(string, string list) dict \<Rightarrow> (string, int) dict \<Rightarrow> error + (string, int) dict" where
  "associate_rxn_dist rxndata taxdistdata =
     associate_loop rxndata taxdistdata (map fst rxndata) []"

section \<open>Notions of the specification and example data\<close>

text \<open>The longest common prefix of two lineages, as the specification words it.\<close>

fun common_prefix :: "'a list \<Rightarrow> 'a list \<Rightarrow> 'a list" where
  "common_prefix (x # xs) (y # ys) = (if x = y then x # common_prefix xs ys else [])"
| "common_prefix xs ys = []"

text \<open>
  The distances of the candidates that have an entry in the taxon-distance mapping, and the
  specification's result for one reaction: their minimum, or the sentinel 1000.
\<close>

definition present_dists :: "(string, int) dict \<Rightarrow> string list \<Rightarrow> int list" where
  "present_dists taxdistdata txns = List.map_filter (map_of taxdistdata) txns"

definition min_over_present :: "(string, int) dict \<Rightarrow> string list \<Rightarrow> int" where
  "min_over_present taxdistdata txns =
     (case present_dists taxdistdata txns of [] \<Rightarrow> 1000 | d # ds \<Rightarrow> Min (set (d # ds)))"

text \<open>Taxa with the lineages \<open>[A, B, C]\<close>, \<open>[A, B, D]\<close> and \<open>[A, B]\<close>.\<close>

definition taxon_C :: taxon where
  "taxon_C = \<lparr>taxid = PStr ''C'', scientific_name = PStr ''c'',
     lineage_taxa_name = PList [PStr ''a'', PStr ''b'', PStr ''c''],
     lineage_taxa_id = PList [PStr ''A'', PStr ''B'', PStr ''C''],
     parent_taxid = PStr ''B'', dist_to_root = None\<rparr>"

definition taxon_D :: taxon where
  "taxon_D = \<lparr>taxid = PStr ''D'', scientific_name = PStr ''d'',
     lineage_taxa_name = PList [PStr ''a'', PStr ''b'', PStr ''d''],
     lineage_taxa_id = PList [PStr ''A'', PStr ''B'', PStr ''D''],
     parent_taxid = PStr ''B'', dist_to_root = None\<rparr>"

definition taxon_B :: taxon where
  "taxon_B = \<lparr>taxid = PStr ''B'', scientific_name = PStr ''b'',
     lineage_taxa_name = PList [PStr ''a'', PStr ''b''],
     lineage_taxa_id = PList [PStr ''A'', PStr ''B''],
     parent_taxid = PStr ''A'', dist_to_root = None\<rparr>"

text \<open>
  Bacteria (NCBI identifier 2) and the root of the NCBI tree (identifier 1), with string
  identifiers as the constructor stores them.
\<close>

definition taxon_bacteria :: taxon where
  "taxon_bacteria = \<lparr>taxid = PStr ''2'', scientific_name = PStr ''Bacteria'',
     lineage_taxa_name = PList [PStr ''cellular organisms'', PStr ''Bacteria''],
     lineage_taxa_id = PList [PStr ''131567'', PStr ''2''],
     parent_taxid = PStr ''131567'', dist_to_root = None\<rparr>"

definition taxon_root :: taxon where
  "taxon_root = \<lparr>taxid = PStr ''1'', scientific_name = PStr ''root'',
     lineage_taxa_name = PList [PStr ''root''],
     lineage_taxa_id = PList [PStr ''1''],
     parent_taxid = PStr ''1'', dist_to_root = None\<rparr>"

text \<open>A reaction table and a distance table: \<open>R1\<close> has candidates at distances 5, 2 and 9.\<close>

definition rxndata_example :: "(string, string list) dict" where
  "rxndata_example =
     [(''R1'', [''TAX-10'', ''TAX-20'', ''TAX-30'']),
      (''R2'', [''TAX-40'', ''TAX-20'']),
      (''R3'', [''TAX-40''])]"

definition taxdist_example :: "(string, int) dict" where
  "taxdist_example = [(''TAX-10'', 5), (''TAX-20'', 2), (''TAX-30'', 9)]"

text \<open>
  What line 81 evaluates for one label of the input set: the constructor, called with the
  stripped label as identifier and nothing else.
\<close>

abbreviation resolve_label :: "ncbi \<Rightarrow> pyval \<Rightarrow> string \<Rightarrow> error + taxon" where
  "resolve_label w email label \<equiv>
     Taxon_init w (PStr (py_strip ''TAX-'' label)) PNone PNone PNone PNone email"

text \<open>
  A fully populated record has five truthy fields. \<open>reloaded t\<close> is what \<open>read_json\<close> builds
  from the saved form of \<open>t\<close>.
\<close>

definition fully_populated :: "taxon \<Rightarrow> bool" where
  "fully_populated t \<longleftrightarrow>
     truthy (taxid t) \<and> truthy (scientific_name t) \<and> truthy (lineage_taxa_name t) \<and>
     truthy (lineage_taxa_id t) \<and> truthy (parent_taxid t)"

definition reloaded :: "taxon \<Rightarrow> taxon" where
  "reloaded t = t\<lparr>lineage_taxa_id := lineage_taxa_name t, dist_to_root := None\<rparr>"

text \<open>
  A directory that knows Bacteria under the identifier \<open>'2'\<close>, answers the identifier
  \<open>'99'\<close> with an HTTP error and has no entry for anything else.
\<close>

definition entry_bacteria :: entry where
  "entry_bacteria = \<lparr>ScientificName = Some ''Bacteria'', Lineage = Some ''cellular organisms'',
     ParentTaxId = Some ''131567'', LineageEx = Some [Some ''131567'']\<rparr>"

definition ncbi_example :: ncbi where
  "ncbi_example =
     \<lparr>esearch = (\<lambda>term. if term = PStr ''Bacteria'' then Inr (Some [''2'']) else Inr (Some [])),
      efetch = (\<lambda>tid. if tid = PStr ''2'' then Inr [entry_bacteria]
                     else if tid = PStr ''99'' then Inl HTTPError else Inr [])\<rparr>"

text \<open>
  The same directory, except that the fetch for the identifier \<open>'5'\<close> raises an exception
  that is not among the three of line 86: a \<open>URLError\<close>, as on a timeout.
\<close>

definition ncbi_timeout :: ncbi where
  "ncbi_timeout =
     \<lparr>esearch = (\<lambda>term. Inr (Some [])),
      efetch = (\<lambda>tid. if tid = PStr ''2'' then Inr [entry_bacteria]
                     else if tid = PStr ''5'' then Inl (OtherError ''URLError'') else Inr [])\<rparr>"

definition taxon_bacteria_fetched :: taxon where
  "taxon_bacteria_fetched = taxon_bacteria\<lparr>dist_to_root := Some 2\<rparr>"

section \<open>The constructor\<close>

text \<open>What the example directory answers.\<close>

lemma taxon_from_ncbi_bacteria:
  "taxon_from_ncbi ncbi_example (PStr ''2'') name = Inr taxon_bacteria_fetched"
  by (simp add: taxon_from_ncbi_def fetch_entry_def ncbi_example_def
      taxon_of_entry_def entry_bacteria_def lineage_ids_of_def taxon_bacteria_fetched_def
      taxon_bacteria_def Let_def)

text \<open>
  The fetch fails with \<open>TaxonNotFound\<close> exactly on the three exception classes of line 86
  and on an empty answer; any other exception of the directory passes through.
\<close>

lemma fetch_entry_not_found:
  "fetch_entry w tid = Inl TaxonNotFound \<longleftrightarrow>
     efetch w tid = Inl TypeError \<or> efetch w tid = Inl IndexError \<or>
     efetch w tid = Inl HTTPError \<or> efetch w tid = Inr []"
  by (auto simp: fetch_entry_def split: sum.splits list.splits)

lemma get_taxid_from_name_not_invalid: "get_taxid_from_name w name \<noteq> Inl TaxonInvalidInput"
  by (simp add: get_taxid_from_name_def split: sum.splits option.splits list.splits)

lemma fetch_entry_not_invalid: "fetch_entry w t \<noteq> Inl TaxonInvalidInput"
  by (simp add: fetch_entry_def split: sum.splits list.splits)

lemma taxon_of_entry_not_invalid: "taxon_of_entry t en \<noteq> Inl TaxonInvalidInput"
  by (simp add: taxon_of_entry_def Let_def split: option.splits)

lemma taxon_from_ncbi_invalid_iff:
  "taxon_from_ncbi w tid name = Inl TaxonInvalidInput \<longleftrightarrow> \<not> truthy tid \<and> \<not> truthy name"
  using get_taxid_from_name_not_invalid[of w name] fetch_entry_not_invalid[of w]
    taxon_of_entry_not_invalid
  by (auto simp: taxon_from_ncbi_def split: sum.splits)

text \<open>
  C8. Construction with neither an identifier nor a scientific name (each \<open>None\<close>, or
  another falsy value) raises \<open>TaxonInvalidInput\<close>, whatever the other arguments are: no
  taxon is built.
\<close>

theorem no_id_no_name_invalid_input:
  assumes "\<not> truthy tid" and "\<not> truthy name"
  shows "Taxon_init w tid name lnames lids parent useremail = Inl TaxonInvalidInput"
  using assms by (simp add: Taxon_init_def taxon_from_ncbi_def)

theorem no_id_no_name_invalid_input_witness:
  "\<not> truthy PNone \<and>
   Taxon_init ncbi_example PNone PNone PNone PNone PNone PNone = Inl TaxonInvalidInput \<and>
   Taxon_init ncbi_example PNone PNone (PList [PStr ''Bacteria'']) (PList [PStr ''2''])
     (PStr ''131567'') (PStr ''nobody@example.com'') = Inl TaxonInvalidInput"
  using no_id_no_name_invalid_input[of PNone PNone ncbi_example PNone PNone PNone PNone]
    no_id_no_name_invalid_input[of PNone PNone ncbi_example "PList [PStr ''Bacteria'']"
      "PList [PStr ''2'']" "PStr ''131567''" "PStr ''nobody@example.com''"]
  by simp

text \<open>
  C10. The full-field branch is taken exactly when the five fields are all truthy. If one
  of them is \<open>None\<close>, an empty string or an empty list, the constructor goes on to the NCBI
  path without any error of its own, and there \<open>TaxonInvalidInput\<close> is raised exactly when
  both the identifier and the name are falsy.
\<close>

theorem full_field_branch_iff_all_truthy:
  "(truthy tid \<and> truthy name \<and> truthy lnames \<and> truthy lids \<and> truthy parent \<longrightarrow>
      Taxon_init w tid name lnames lids parent useremail =
        Inr \<lparr>taxid = tid, scientific_name = name, lineage_taxa_name = lnames,
             lineage_taxa_id = lids, parent_taxid = parent, dist_to_root = None\<rparr>) \<and>
   (\<not> (truthy tid \<and> truthy name \<and> truthy lnames \<and> truthy lids \<and> truthy parent) \<longrightarrow>
      Taxon_init w tid name lnames lids parent useremail = taxon_from_ncbi w tid name \<and>
      (Taxon_init w tid name lnames lids parent useremail = Inl TaxonInvalidInput
         \<longleftrightarrow> \<not> truthy tid \<and> \<not> truthy name)) \<and>
   \<not> truthy PNone \<and> \<not> truthy (PStr []) \<and> \<not> truthy (PList [])"
  using taxon_from_ncbi_invalid_iff[of w tid name]
  by (auto simp: Taxon_init_def)

theorem full_field_branch_iff_all_truthy_witness:
  "Taxon_init ncbi_example (PStr ''2'') (PStr ''Bacteria'')
     (PList [PStr ''cellular organisms'', PStr ''Bacteria''])
     (PList [PStr ''131567'', PStr ''2'']) (PStr ''131567'') PNone = Inr taxon_bacteria \<and>
   Taxon_init ncbi_example (PStr ''2'') (PStr ''Bacteria'') (PList [])
     (PList [PStr ''131567'', PStr ''2'']) (PStr ''131567'') PNone
     = Inr taxon_bacteria_fetched \<and>
   Taxon_init ncbi_example (PStr []) PNone (PList [PStr ''cellular organisms'', PStr ''Bacteria''])
     (PList [PStr ''131567'', PStr ''2'']) (PStr ''131567'') PNone = Inl TaxonInvalidInput"
proof -
  have a: "Taxon_init ncbi_example (PStr ''2'') (PStr ''Bacteria'')
     (PList [PStr ''cellular organisms'', PStr ''Bacteria''])
     (PList [PStr ''131567'', PStr ''2'']) (PStr ''131567'') PNone = Inr taxon_bacteria"
    using full_field_branch_iff_all_truthy[of "PStr ''2''" "PStr ''Bacteria''"
      "PList [PStr ''cellular organisms'', PStr ''Bacteria'']"
      "PList [PStr ''131567'', PStr ''2'']" "PStr ''131567''" ncbi_example PNone]
    by (simp add: taxon_bacteria_def)
  have "Taxon_init ncbi_example (PStr ''2'') (PStr ''Bacteria'') (PList [])
     (PList [PStr ''131567'', PStr ''2'']) (PStr ''131567'') PNone
     = taxon_from_ncbi ncbi_example (PStr ''2'') (PStr ''Bacteria'')"
    using full_field_branch_iff_all_truthy[of "PStr ''2''" "PStr ''Bacteria''" "PList []"
      "PList [PStr ''131567'', PStr ''2'']" "PStr ''131567''" ncbi_example PNone]
    by simp
  then have b: "Taxon_init ncbi_example (PStr ''2'') (PStr ''Bacteria'') (PList [])
     (PList [PStr ''131567'', PStr ''2'']) (PStr ''131567'') PNone = Inr taxon_bacteria_fetched"
    by (simp only: taxon_from_ncbi_bacteria)
  have n: "\<not> (truthy (PStr []) \<and> truthy PNone \<and>
              truthy (PList [PStr ''cellular organisms'', PStr ''Bacteria'']) \<and>
              truthy (PList [PStr ''131567'', PStr ''2'']) \<and> truthy (PStr ''131567''))"
    by simp
  note F = full_field_branch_iff_all_truthy[of "PStr []" PNone
      "PList [PStr ''cellular organisms'', PStr ''Bacteria'']"
      "PList [PStr ''131567'', PStr ''2'']" "PStr ''131567''" ncbi_example PNone]
  note G = conjunct2[OF mp[OF conjunct1[OF conjunct2[OF F]] n]]
  have c: "Taxon_init ncbi_example (PStr []) PNone
     (PList [PStr ''cellular organisms'', PStr ''Bacteria''])
     (PList [PStr ''131567'', PStr ''2'']) (PStr ''131567'') PNone = Inl TaxonInvalidInput"
    by (rule iffD2[OF G]) simp
  from a b c show ?thesis by (intro conjI)
qed

section \<open>The distance between two taxa\<close>

lemma common_prefix_Nil2: "common_prefix xs [] = []"
  by (cases xs) simp_all

lemma common_prefix_same: "common_prefix xs xs = xs"
  by (induction xs) simp_all

lemma common_prefix_append: "common_prefix (xs @ ys) (xs @ zs) = xs @ common_prefix ys zs"
  by (induction xs) simp_all

lemma common_prefix_prefix1: "prefix (common_prefix xs ys) xs"
  by (induction xs ys rule: common_prefix.induct) simp_all

lemma common_prefix_prefix2: "prefix (common_prefix xs ys) ys"
  by (induction xs ys rule: common_prefix.induct) simp_all

lemma common_prefix_longest: "prefix p xs \<Longrightarrow> prefix p ys \<Longrightarrow> prefix p (common_prefix xs ys)"
  by (auto simp: prefix_def common_prefix_append)

text \<open>
  On two lists the loop returns what it had collected, followed by the common prefix of
  what is left.
\<close>

lemma common_loop_lists:
  "bound = min (length a) (length b) \<Longrightarrow> i \<le> bound \<Longrightarrow>
   common_loop (PList a) (PList b) bound c i = Inr (c @ common_prefix (drop i a) (drop i b))"
proof (induction "PList a" "PList b" bound c i rule: common_loop.induct)
  case (1 bound c i)
  show ?case
  proof (cases "i < bound")
    case True
    with "1.prems" have ia: "i < length a" and ib: "i < length b" by simp_all
    have da: "drop i a = a ! i # drop (Suc i) a" using ia by (simp add: Cons_nth_drop_Suc)
    have db: "drop i b = b ! i # drop (Suc i) b" using ib by (simp add: Cons_nth_drop_Suc)
    show ?thesis
    proof (cases "a ! i = b ! i")
      case eq: True
      have "common_loop (PList a) (PList b) bound (c @ [a ! i]) (i + 1)
            = Inr ((c @ [a ! i]) @ common_prefix (drop (i + 1) a) (drop (i + 1) b))"
        using "1.hyps"[of "a ! i" "b ! i"] ia ib "1.prems" True eq by simp
      then show ?thesis using True ia ib eq da db
        by (subst common_loop.simps) simp
    next
      case False
      then show ?thesis using True ia ib da db
        by (subst common_loop.simps) simp
    qed
  next
    case False
    have "i = bound" using False "1.prems"(2) by simp
    then have "length a \<le> i \<or> length b \<le> i"
      using "1.prems"(1) by (simp add: min_def split: if_splits)
    then have "drop i a = [] \<or> drop i b = []" by auto
    then have "common_prefix (drop i a) (drop i b) = []"
      by (auto simp: common_prefix_Nil2)
    then show ?thesis using False by (subst common_loop.simps) simp
  qed
qed

lemma lca_distances_lists:
  assumes "lineage_taxa_id q = PList a" and "lineage_taxa_id t = PList b"
  shows "lca_distances q t =
           Inr (common_prefix a b,
                int (length a) - int (length (common_prefix a b)),
                (if length a \<noteq> length (common_prefix a b)
                 then int (length b) - int (length (common_prefix a b)) else 0))"
proof -
  have "(if length a \<le> length b then length a else length b) = min (length a) (length b)"
    by simp
  then have "common_loop (PList a) (PList b) (if length a \<le> length b then length a else length b) [] 0
             = Inr (common_prefix a b)"
    using common_loop_lists[of "min (length a) (length b)" a b 0 "[]"] by simp
  then show ?thesis using assms by (simp add: lca_distances_def Let_def)
qed

text \<open>The root test of line 132 succeeds on the integer 1.\<close>

lemma root_int_distance:
  "taxid t = PInt 1 \<Longrightarrow> lineage_taxa_id q = PList a \<Longrightarrow>
   get_distance_between_two_taxa q t penalty = Inr (int (length a))"
  by (simp add: get_distance_between_two_taxa_def)

text \<open>
  C2. A target whose identifier is the root's is at distance \<open>len(query.lineageIds)\<close>.
  The code tests \<open>anothertaxon.taxid == 1\<close>, an integer, while every identifier the
  program stores is a string: for Bacteria (lineage of length 2) against the root taxon
  with identifier \<open>'1'\<close> the test fails, the general branch runs and the result is
  \<open>2 + 1 * 20 = 22\<close>, not 2.
\<close>

theorem root_string_taxid_distance:
  "taxid taxon_root = PStr ''1'' \<and>
   py_len (lineage_taxa_id taxon_bacteria) = Inr 2 \<and>
   lca_distances taxon_bacteria taxon_root = Inr ([], 2, 1) \<and>
   get_distance_between_two_taxa taxon_bacteria taxon_root 20 = Inr 22"
proof -
  have l: "lca_distances taxon_bacteria taxon_root = Inr ([], 2, 1)"
    using lca_distances_lists[of taxon_bacteria "[PStr ''131567'', PStr ''2'']"
        taxon_root "[PStr ''1'']"]
    by (simp add: taxon_bacteria_def taxon_root_def)
  have "get_distance_between_two_taxa taxon_bacteria taxon_root 20 = Inr 22"
    by (simp add: get_distance_between_two_taxa_def l) (simp add: taxon_root_def)
  then show ?thesis using l by (simp add: taxon_bacteria_def taxon_root_def)
qed

text \<open>
  C6. Two taxa whose lineages agree on all but the last element, the target not being the
  root: the common prefix is the shared part, one step up, one step down, and the distance
  is \<open>1 + 1 * penalty\<close>.
\<close>

theorem siblings_distance:
  assumes "lineage_taxa_id q = PList (xs @ [c])" and "lineage_taxa_id t = PList (xs @ [d])"
    and "c \<noteq> d" and "taxid t \<noteq> PInt 1"
  shows "lca_distances q t = Inr (xs, 1, 1) \<and>
         get_distance_between_two_taxa q t penalty = Inr (1 + 1 * penalty)"
proof -
  have cp: "common_prefix (xs @ [c]) (xs @ [d]) = xs"
    using assms(3) by (simp add: common_prefix_append)
  have l: "lca_distances q t = Inr (xs, 1, 1)"
    using lca_distances_lists[OF assms(1,2)] by (simp add: cp)
  then show ?thesis using assms(4) by (simp add: get_distance_between_two_taxa_def)
qed

theorem siblings_distance_witness:
  "lineage_taxa_id taxon_C = PList ([PStr ''A'', PStr ''B''] @ [PStr ''C'']) \<and>
   lineage_taxa_id taxon_D = PList ([PStr ''A'', PStr ''B''] @ [PStr ''D'']) \<and>
   PStr ''C'' \<noteq> PStr ''D'' \<and> taxid taxon_D \<noteq> PInt 1 \<and>
   lca_distances taxon_C taxon_D = Inr ([PStr ''A'', PStr ''B''], 1, 1) \<and>
   length [PStr ''A'', PStr ''B''] = 2 \<and>
   get_distance_between_two_taxa taxon_C taxon_D 20 = Inr 21"
  using siblings_distance[of taxon_C "[PStr ''A'', PStr ''B'']" "PStr ''C''" taxon_D "PStr ''D''" 20]
  by (simp add: taxon_C_def taxon_D_def)

text \<open>
  C7. When one lineage is a prefix of the other and the target is not the root, nothing is
  counted downwards: the distance is \<open>len(query.lineageIds)\<close> minus the length of the common
  prefix, whatever the penalty, and it is 0 for equal lineages.
\<close>

theorem ancestor_distance:
  assumes "lineage_taxa_id q = PList a" and "lineage_taxa_id t = PList b"
    and "prefix a b \<or> prefix b a" and "taxid t \<noteq> PInt 1"
  shows "lca_distances q t =
           Inr (common_prefix a b, int (length a) - int (length (common_prefix a b)), 0) \<and>
         get_distance_between_two_taxa q t penalty =
           Inr (int (length a) - int (length (common_prefix a b))) \<and>
         length (common_prefix a b) = min (length a) (length b) \<and>
         (a = b \<longrightarrow> get_distance_between_two_taxa q t penalty = Inr 0)"
proof -
  have cp: "common_prefix a b = (if length a \<le> length b then a else b)"
    using assms(3)
  proof
    assume "prefix a b"
    then obtain r where "b = a @ r" by (auto simp: prefix_def)
    then show ?thesis
      using common_prefix_append[of a "[]" r] by (auto simp: common_prefix_Nil2 common_prefix_same)
  next
    assume "prefix b a"
    then obtain r where "a = b @ r" by (auto simp: prefix_def)
    then show ?thesis
      using common_prefix_append[of b r "[]"] by (auto simp: common_prefix_Nil2 common_prefix_same)
  qed
  have l: "lca_distances q t =
           Inr (common_prefix a b, int (length a) - int (length (common_prefix a b)), 0)"
    using lca_distances_lists[OF assms(1,2)] by (auto simp: cp)
  show ?thesis using l assms(4) by (auto simp: get_distance_between_two_taxa_def cp)
qed

theorem ancestor_distance_witness:
  "prefix [PStr ''A'', PStr ''B''] [PStr ''A'', PStr ''B'', PStr ''C''] \<and>
   taxid taxon_B \<noteq> PInt 1 \<and>
   lca_distances taxon_C taxon_B = Inr ([PStr ''A'', PStr ''B''], 1, 0) \<and>
   get_distance_between_two_taxa taxon_C taxon_B 20 = Inr 1 \<and>
   get_distance_between_two_taxa taxon_C taxon_B 7 = Inr 1 \<and>
   get_distance_between_two_taxa taxon_B taxon_C 20 = Inr 0 \<and>
   get_distance_between_two_taxa taxon_C taxon_C 20 = Inr 0"
  using ancestor_distance[of taxon_C "[PStr ''A'', PStr ''B'', PStr ''C'']"
      taxon_B "[PStr ''A'', PStr ''B'']" 20]
    ancestor_distance[of taxon_C "[PStr ''A'', PStr ''B'', PStr ''C'']"
      taxon_B "[PStr ''A'', PStr ''B'']" 7]
    ancestor_distance[of taxon_B "[PStr ''A'', PStr ''B'']"
      taxon_C "[PStr ''A'', PStr ''B'', PStr ''C'']" 20]
    ancestor_distance[of taxon_C "[PStr ''A'', PStr ''B'', PStr ''C'']"
      taxon_C "[PStr ''A'', PStr ''B'', PStr ''C'']" 20]
  by (simp add: taxon_C_def taxon_B_def)

section \<open>Resolving a set of labels\<close>

text \<open>
  On a label \<open>TAX-\<close> followed by a remainder that neither begins nor ends with one of the
  characters \<open>T\<close>, \<open>A\<close>, \<open>X\<close> and \<open>-\<close> (a decimal identifier), stripping leaves the
  remainder.
\<close>

lemma strip_tax_prefix:
  assumes "r = [] \<or> hd r \<notin> set ''TAX-'' \<and> last r \<notin> set ''TAX-''"
  shows "py_strip ''TAX-'' (''TAX-'' @ r) = r"
proof (cases r)
  case Nil
  then show ?thesis by (simp add: py_strip_def)
next
  case (Cons c cs)
  with assms have h: "c \<notin> set ''TAX-''" and l: "last r \<notin> set ''TAX-''" by auto
  have 1: "dropWhile (\<lambda>c. c \<in> set ''TAX-'') (''TAX-'' @ r) = r"
    using h Cons by simp
  have "rev r \<noteq> []" using Cons by simp
  then obtain y ys where ry: "rev r = y # ys" by (cases "rev r") auto
  then have "y = last r" using Cons by (metis last_rev list.sel(1) rev_rev_ident hd_rev)
  then have y: "y \<notin> set ''TAX-''" using l by simp
  have 2: "dropWhile (\<lambda>c. c \<in> set ''TAX-'') (rev r) = rev r"
    unfolding ry using y by simp
  show ?thesis unfolding py_strip_def 1 2 by simp
qed

lemma turn_taxa_loop_char:
  "turn_taxa_loop w email labels acc = Inr res \<Longrightarrow>
   map_of res = (\<lambda>l. if l \<in> set labels
                      then (case resolve_label w email l of Inr t \<Rightarrow> Some t | Inl e \<Rightarrow> map_of acc l)
                      else map_of acc l)"
proof (induction labels arbitrary: acc)
  case Nil
  then show ?case by simp
next
  case (Cons a labels)
  show ?case
  proof (cases "resolve_label w email a")
    case (Inr t)
    with Cons.prems have "turn_taxa_loop w email labels (AList.update a t acc) = Inr res"
      by simp
    from Cons.IH[OF this] show ?thesis using Inr
      by (auto simp: fun_eq_iff update_conv split: sum.splits)
  next
    case (Inl e)
    with Cons.prems have e: "e = TaxonNotFound"
      by (cases e) simp_all
    with Cons.prems Inl have "turn_taxa_loop w email labels acc = Inr res" by simp
    from Cons.IH[OF this] show ?thesis using Inl
      by (auto simp: fun_eq_iff split: sum.splits)
  qed
qed

lemma turn_taxa_loop_total:
  "\<forall>l \<in> set labels. resolve_label w email l = Inl TaxonNotFound \<or>
                       (\<exists>t. resolve_label w email l = Inr t) \<Longrightarrow>
   \<exists>res. turn_taxa_loop w email labels acc = Inr res"
proof (induction labels arbitrary: acc)
  case Nil
  then show ?case by simp
next
  case (Cons a labels)
  then show ?case by (cases "resolve_label w email a") auto
qed

lemma resolve_example:
  "resolve_label ncbi_example PNone ''TAX-2'' = Inr taxon_bacteria_fetched"
  "resolve_label ncbi_example PNone ''TAX-A2'' = Inr taxon_bacteria_fetched"
  "resolve_label ncbi_example PNone ''TAX-99'' = Inl TaxonNotFound"
  "resolve_label ncbi_example PNone ''TAX-7'' = Inl TaxonNotFound"
  "Taxon_init ncbi_example (PStr ''A2'') PNone PNone PNone PNone PNone = Inl TaxonNotFound"
  by (simp_all add: py_strip_def Taxon_init_def taxon_from_ncbi_bacteria)
     (simp_all add: taxon_from_ncbi_def fetch_entry_def ncbi_example_def)

text \<open>
  A label whose stripped form is not empty fails with \<open>TaxonNotFound\<close> exactly when the fetch
  raises one of the three listed exception classes or answers with no entry. A failure of
  any other kind at a label ends the whole call with that failure.
\<close>

lemma taxon_of_entry_not_missing: "taxon_of_entry t en \<noteq> Inl TaxonNotFound"
  by (simp add: taxon_of_entry_def Let_def split: option.splits)

lemma resolve_label_not_found_iff:
  assumes "py_strip ''TAX-'' label \<noteq> []"
  shows "resolve_label w email label = Inl TaxonNotFound \<longleftrightarrow>
           efetch w (PStr (py_strip ''TAX-'' label)) = Inl TypeError \<or>
           efetch w (PStr (py_strip ''TAX-'' label)) = Inl IndexError \<or>
           efetch w (PStr (py_strip ''TAX-'' label)) = Inl HTTPError \<or>
           efetch w (PStr (py_strip ''TAX-'' label)) = Inr []"
proof -
  have "resolve_label w email label =
          (case fetch_entry w (PStr (py_strip ''TAX-'' label)) of
             Inl e \<Rightarrow> Inl e
           | Inr en \<Rightarrow> taxon_of_entry (PStr (py_strip ''TAX-'' label)) en)"
    using assms by (simp add: Taxon_init_def taxon_from_ncbi_def)
  then have "resolve_label w email label = Inl TaxonNotFound \<longleftrightarrow>
          fetch_entry w (PStr (py_strip ''TAX-'' label)) = Inl TaxonNotFound"
    using taxon_of_entry_not_missing by (auto split: sum.splits)
  then show ?thesis by (simp only: fetch_entry_not_found)
qed

lemma turn_taxa_loop_other_failure:
  "resolve_label w email elem = Inl e \<Longrightarrow> e \<noteq> TaxonNotFound \<Longrightarrow>
   turn_taxa_loop w email (elem # rest) tax_info = Inl e"
  by (cases e) simp_all

text \<open>
  C4. The identifier passed to resolution is the label without its prefix tag, and the
  unmodified label is the key of the result. \<open>elem.strip('TAX-')\<close> removes characters at
  both ends, not the prefix: from the label \<open>TAX-A2\<close> it passes \<open>2\<close> instead of \<open>A2\<close>, so
  the result has an entry for the label, holding Bacteria, although the directory has no
  entry for \<open>A2\<close>.
\<close>

theorem strip_passes_2_for_label_TAX_A2:
  "py_strip ''TAX-'' ''TAX-A2'' = ''2'' \<and>
   turn_taxa_into_taxonomic_info ncbi_example [''TAX-A2''] PNone
     = Inr [(''TAX-A2'', taxon_bacteria_fetched)] \<and>
   Taxon_init ncbi_example (PStr ''A2'') PNone PNone PNone PNone PNone = Inl TaxonNotFound"
  using resolve_example(2,5)
  by (simp add: turn_taxa_into_taxonomic_info_def) (simp add: py_strip_def)

text \<open>
  Every key of the result is an unmodified label of the input set, and its entry is what
  the constructor built from the stripped label.
\<close>

lemma turn_taxa_keys_in_labels:
  assumes "turn_taxa_into_taxonomic_info w labels email = Inr res"
  shows "fst ` set res \<subseteq> set labels \<and>
         (\<forall>label \<in> set labels.
            map_of res label =
              (case resolve_label w email label of Inr t \<Rightarrow> Some t | Inl e \<Rightarrow> None))"
proof -
  have m: "map_of res = (\<lambda>l. if l \<in> set labels
                      then (case resolve_label w email l of Inr t \<Rightarrow> Some t | Inl e \<Rightarrow> map_of [] l)
                      else map_of [] l)"
    using assms turn_taxa_loop_char[of w email labels "[]" res]
    by (simp add: turn_taxa_into_taxonomic_info_def)
  have "\<And>l. l \<in> fst ` set res \<Longrightarrow> l \<in> set labels"
  proof -
    fix l assume "l \<in> fst ` set res"
    then have "map_of res l \<noteq> None" by (simp add: map_of_eq_None_iff)
    then show "l \<in> set labels" using m by (auto split: if_splits)
  qed
  then have "fst ` set res \<subseteq> set labels" by blast
  then show ?thesis using m by (auto split: sum.splits)
qed

text \<open>
  C5, as the specification states it: a failure of the fetch, transport errors and
  timeouts included, is a \<open>TaxonNotFound\<close>, and the call never ends because one label
  failed. Line 86 lists three exception classes: when the fetch for \<open>TAX-5\<close> raises
  another one (a \<open>URLError\<close>), the constructor passes it on and the call ends with it,
  although \<open>TAX-2\<close> had resolved. A label that strips to the empty string ends the call
  with \<open>TaxonInvalidInput\<close>.
\<close>

theorem other_failure_ends_call_counterexample:
  "Taxon_init ncbi_timeout (PStr ''2'') PNone PNone PNone PNone PNone
     = Inr taxon_bacteria_fetched \<and>
   Taxon_init ncbi_timeout (PStr ''5'') PNone PNone PNone PNone PNone
     = Inl (Uncaught (OtherError ''URLError'')) \<and>
   turn_taxa_into_taxonomic_info ncbi_timeout [''TAX-2'', ''TAX-5''] PNone
     = Inl (Uncaught (OtherError ''URLError'')) \<and>
   py_strip ''TAX-'' ''TAX-'' = [] \<and>
   turn_taxa_into_taxonomic_info ncbi_example [''TAX-2'', ''TAX-''] PNone
     = Inl TaxonInvalidInput"
proof -
  have a: "Taxon_init ncbi_timeout (PStr ''2'') PNone PNone PNone PNone PNone
     = Inr taxon_bacteria_fetched"
    by (simp add: Taxon_init_def taxon_from_ncbi_def fetch_entry_def ncbi_timeout_def
        taxon_of_entry_def entry_bacteria_def lineage_ids_of_def taxon_bacteria_fetched_def
        taxon_bacteria_def Let_def)
  have b: "Taxon_init ncbi_timeout (PStr ''5'') PNone PNone PNone PNone PNone
     = Inl (Uncaught (OtherError ''URLError''))"
    by (simp add: Taxon_init_def taxon_from_ncbi_def fetch_entry_def ncbi_timeout_def)
  have s2: "py_strip ''TAX-'' ''TAX-2'' = ''2''" by (simp add: py_strip_def)
  have s5: "py_strip ''TAX-'' ''TAX-5'' = ''5''" by (simp add: py_strip_def)
  have s0: "py_strip ''TAX-'' ''TAX-'' = []" by (simp add: py_strip_def)
  have c: "turn_taxa_into_taxonomic_info ncbi_timeout [''TAX-2'', ''TAX-5''] PNone
     = Inl (Uncaught (OtherError ''URLError''))"
    by (simp add: turn_taxa_into_taxonomic_info_def s2 s5 a b)
  have e: "Taxon_init ncbi_example (PStr []) PNone PNone PNone PNone PNone
     = Inl TaxonInvalidInput"
    by (simp add: Taxon_init_def taxon_from_ncbi_def)
  have d: "turn_taxa_into_taxonomic_info ncbi_example [''TAX-2'', ''TAX-''] PNone
     = Inl TaxonInvalidInput"
    using resolve_example(1) by (simp add: turn_taxa_into_taxonomic_info_def s0 e)
  from a b c s0 d show ?thesis by (intro conjI)
qed

text \<open>
  C5, amended. When every label of the set either resolves or fails with
  \<open>TaxonNotFound\<close>, the call returns a mapping, and the mapping has an entry exactly for
  the labels whose resolution succeeded: a label that was not found is absent and the
  labels after it are still processed.
\<close>

theorem not_found_labels_are_dropped:
  assumes "\<forall>label \<in> set labels.
             Taxon_init w (PStr (py_strip ''TAX-'' label)) PNone PNone PNone PNone email
               = Inl TaxonNotFound \<or>
             (\<exists>t. Taxon_init w (PStr (py_strip ''TAX-'' label)) PNone PNone PNone PNone email
               = Inr t)"
  shows "\<exists>res. turn_taxa_into_taxonomic_info w labels email = Inr res \<and>
           (\<forall>label t. map_of res label = Some t \<longleftrightarrow>
              label \<in> set labels \<and>
              Taxon_init w (PStr (py_strip ''TAX-'' label)) PNone PNone PNone PNone email = Inr t)"
proof -
  obtain res where r: "turn_taxa_into_taxonomic_info w labels email = Inr res"
    using turn_taxa_loop_total[OF assms, of "[]"]
    by (auto simp: turn_taxa_into_taxonomic_info_def)
  have m: "map_of res = (\<lambda>l. if l \<in> set labels
                      then (case resolve_label w email l of Inr t \<Rightarrow> Some t | Inl e \<Rightarrow> map_of [] l)
                      else map_of [] l)"
    using r turn_taxa_loop_char[of w email labels "[]" res]
    by (simp add: turn_taxa_into_taxonomic_info_def)
  show ?thesis using r m by (auto split: sum.splits)
qed

theorem not_found_labels_are_dropped_witness:
  "Taxon_init ncbi_example (PStr (py_strip ''TAX-'' ''TAX-99'')) PNone PNone PNone PNone PNone
     = Inl TaxonNotFound \<and>
   Taxon_init ncbi_example (PStr (py_strip ''TAX-'' ''TAX-2'')) PNone PNone PNone PNone PNone
     = Inr taxon_bacteria_fetched \<and>
   Taxon_init ncbi_example (PStr (py_strip ''TAX-'' ''TAX-7'')) PNone PNone PNone PNone PNone
     = Inl TaxonNotFound \<and>
   (\<exists>res. turn_taxa_into_taxonomic_info ncbi_example [''TAX-99'', ''TAX-2'', ''TAX-7''] PNone
            = Inr res \<and>
      map_of res ''TAX-2'' = Some taxon_bacteria_fetched \<and>
      map_of res ''TAX-99'' = None \<and> map_of res ''TAX-7'' = None)"
proof -
  have h: "\<forall>label \<in> set [''TAX-99'', ''TAX-2'', ''TAX-7''].
      Taxon_init ncbi_example (PStr (py_strip ''TAX-'' label)) PNone PNone PNone PNone PNone
        = Inl TaxonNotFound \<or>
      (\<exists>t. Taxon_init ncbi_example (PStr (py_strip ''TAX-'' label)) PNone PNone PNone PNone PNone
        = Inr t)"
    using resolve_example(1,3,4) by simp
  from not_found_labels_are_dropped[OF h]
  obtain res where
    res: "turn_taxa_into_taxonomic_info ncbi_example [''TAX-99'', ''TAX-2'', ''TAX-7''] PNone = Inr res"
      "\<forall>label t. map_of res label = Some t \<longleftrightarrow>
              label \<in> set [''TAX-99'', ''TAX-2'', ''TAX-7''] \<and>
              Taxon_init ncbi_example (PStr (py_strip ''TAX-'' label)) PNone PNone PNone PNone PNone
                = Inr t"
    by blast
  have "map_of res ''TAX-2'' = Some taxon_bacteria_fetched"
    using res(2) resolve_example(1) by simp
  moreover have "map_of res ''TAX-99'' = None"
    using res(2)[rule_format, of "''TAX-99''"] resolve_example(3)
    by (cases "map_of res ''TAX-99''") auto
  moreover have "map_of res ''TAX-7'' = None"
    using res(2)[rule_format, of "''TAX-7''"] resolve_example(4)
    by (cases "map_of res ''TAX-7''") auto
  ultimately have "\<exists>res. turn_taxa_into_taxonomic_info ncbi_example
                      [''TAX-99'', ''TAX-2'', ''TAX-7''] PNone = Inr res \<and>
      map_of res ''TAX-2'' = Some taxon_bacteria_fetched \<and>
      map_of res ''TAX-99'' = None \<and> map_of res ''TAX-7'' = None"
    using res(1) by blast
  with resolve_example(1,3,4) show ?thesis by (intro conjI)
qed

section \<open>Saving and loading the taxa\<close>

lemma map_of_write_json: "map_of (write_json M) k = map_option taxon_dict (map_of M k)"
  by (induction M) (auto simp: write_json_def)

lemma taxon_of_json_taxon_dict:
  "taxon_of_json w (taxon_dict t) =
     Taxon_init w (taxid t) (scientific_name t) (lineage_taxa_name t) (lineage_taxa_name t)
       (parent_taxid t) PNone"
  by (cases "dist_to_root t") (simp_all add: taxon_of_json_def taxon_dict_def dict_get_def)

lemma taxon_of_json_fully_populated:
  "fully_populated t \<Longrightarrow> taxon_of_json w (taxon_dict t) = Inr (reloaded t)"
  by (simp add: taxon_of_json_taxon_dict fully_populated_def Taxon_init_def reloaded_def)

lemma keys_write_json: "map fst (write_json M) = map fst M"
  by (induction M) (auto simp: write_json_def)

lemma read_json_loop_char:
  "\<forall>k \<in> set keys. \<exists>t. map_of M k = Some t \<and> fully_populated t \<Longrightarrow>
   \<exists>res. read_json_loop w (write_json M) keys acc = Inr res \<and>
         map_of res = (\<lambda>k. if k \<in> set keys then map_option reloaded (map_of M k)
                            else map_of acc k)"
proof (induction keys arbitrary: acc)
  case Nil
  then show ?case by simp
next
  case (Cons k keys)
  from Cons.prems obtain t where t: "map_of M k = Some t" "fully_populated t" by auto
  from Cons.prems have "\<forall>k \<in> set keys. \<exists>t. map_of M k = Some t \<and> fully_populated t" by simp
  from Cons.IH[OF this, of "AList.update k (reloaded t) acc"]
  obtain res where
    res: "read_json_loop w (write_json M) keys (AList.update k (reloaded t) acc) = Inr res"
      "map_of res = (\<lambda>x. if x \<in> set keys then map_option reloaded (map_of M x)
                            else map_of (AList.update k (reloaded t) acc) x)"
    by blast
  have "read_json_loop w (write_json M) (k # keys) acc = Inr res"
    using t res(1) by (simp add: dict_get_def map_of_write_json taxon_of_json_fully_populated)
  moreover have "map_of res = (\<lambda>x. if x \<in> set (k # keys) then map_option reloaded (map_of M x)
                            else map_of acc x)"
    using res(2) t by (auto simp: update_conv fun_eq_iff)
  ultimately show ?case by blast
qed

text \<open>
  Loading a saved table of fully populated records gives, under every key, the record with
  its lineage identifiers replaced by its lineage names (and without \<open>dist_to_root\<close>).
\<close>

lemma read_json_write_json:
  assumes "\<forall>(k, t) \<in> set M. fully_populated t"
  shows "\<exists>res. read_json w (write_json M) = Inr res \<and>
           map_of res = (\<lambda>k. map_option reloaded (map_of M k))"
proof -
  have "\<forall>k \<in> set (map fst M). \<exists>t. map_of M k = Some t \<and> fully_populated t"
  proof
    fix k assume "k \<in> set (map fst M)"
    then obtain t where t: "map_of M k = Some t"
      by (cases "map_of M k") (auto simp: map_of_eq_None_iff)
    then have "(k, t) \<in> set M" by (rule map_of_SomeD)
    with assms t show "\<exists>t. map_of M k = Some t \<and> fully_populated t" by auto
  qed
  from read_json_loop_char[OF this, of w "[]"]
  obtain res where res: "read_json w (write_json M) = Inr res"
    "map_of res = (\<lambda>k. if k \<in> set (map fst M) then map_option reloaded (map_of M k)
                            else map_of [] k)"
    by (auto simp: read_json_def keys_write_json)
  have "map_of res = (\<lambda>k. map_option reloaded (map_of M k))"
  proof
    fix k show "map_of res k = map_option reloaded (map_of M k)"
      using res(2) map_of_eq_None_iff[of M k] by (cases "k \<in> set (map fst M)") auto
  qed
  with res(1) show ?thesis by blast
qed

text \<open>
  C1. Loading a saved table gives the table back, field for field. \<open>read_json\<close> passes
  \<open>data[elem]["lineage_taxa_name"]\<close> as the argument \<open>lineage_taxa_id\<close>: for the table that
  maps \<open>TAX-2\<close> to Bacteria the loaded record has the lineage names where the lineage
  identifiers \<open>['131567', '2']\<close> were.
\<close>

theorem read_json_swaps_lineage_ids:
  "fully_populated taxon_bacteria \<and>
   lineage_taxa_id taxon_bacteria = PList [PStr ''131567'', PStr ''2''] \<and>
   read_json w (write_json [(''TAX-2'', taxon_bacteria)]) =
     Inr [(''TAX-2'',
           taxon_bacteria\<lparr>lineage_taxa_id := PList [PStr ''cellular organisms'', PStr ''Bacteria'']\<rparr>)]"
proof -
  have f: "fully_populated taxon_bacteria"
    by (simp add: fully_populated_def taxon_bacteria_def)
  have "read_json w (write_json [(''TAX-2'', taxon_bacteria)]) = Inr [(''TAX-2'', reloaded taxon_bacteria)]"
    using taxon_of_json_fully_populated[OF f, of w]
    by (simp add: read_json_def write_json_def dict_get_def)
  then show ?thesis using f by (simp add: reloaded_def taxon_bacteria_def)
qed

section \<open>Aggregation over the candidates of a reaction\<close>

lemma present_dists_Nil: "present_dists td [] = []"
  by (simp add: present_dists_def)

lemma present_dists_Cons:
  "present_dists td (t # ts) =
     (case map_of td t of None \<Rightarrow> present_dists td ts | Some d \<Rightarrow> d # present_dists td ts)"
  by (simp add: present_dists_def split: option.splits)

lemma fold_min_Min: "fold min xs (x::int) = Min (insert x (set xs))"
  using Min.set_eq_fold[of x xs] by simp

lemma comprehension_dist_char:
  "comprehension_dist td txns =
     (if \<forall>t \<in> set txns. map_of td t \<noteq> None then Inr (present_dists td txns) else Inl KeyError)"
  by (induction txns)
    (auto simp: dict_get_def present_dists_Nil present_dists_Cons split: option.splits)

lemma skipping_dist_char:
  "skipping_dist td txns acc = Inr (acc @ present_dists td txns)"
  by (induction txns arbitrary: acc)
    (auto simp: dict_get_def present_dists_Nil present_dists_Cons split: option.splits)

lemma min_or_sentinel_char:
  "min_or_sentinel ds = Inr (case ds of [] \<Rightarrow> 1000 | d # r \<Rightarrow> Min (set (d # r)))"
  by (cases ds) (simp_all add: min_or_sentinel_def fold_min_Min)

lemma rxn_min_dist_char: "rxn_min_dist td txns = Inr (min_over_present td txns)"
  by (simp add: rxn_min_dist_def comprehension_dist_char skipping_dist_char
      min_or_sentinel_char min_over_present_def)

lemma associate_loop_char:
  "set keys \<subseteq> fst ` set rxndata \<Longrightarrow>
   \<exists>res. associate_loop rxndata td keys acc = Inr res \<and>
         map_of res = (\<lambda>r. if r \<in> set keys
                            then map_option (min_over_present td) (map_of rxndata r)
                            else map_of acc r)"
proof (induction keys arbitrary: acc)
  case Nil
  then show ?case by simp
next
  case (Cons k keys)
  from Cons.prems obtain txns where k: "map_of rxndata k = Some txns"
    by (cases "map_of rxndata k") (auto simp: map_of_eq_None_iff)
  from Cons.prems have "set keys \<subseteq> fst ` set rxndata" by simp
  from Cons.IH[OF this, of "AList.update k (min_over_present td txns) acc"]
  obtain res where
    res: "associate_loop rxndata td keys (AList.update k (min_over_present td txns) acc) = Inr res"
      "map_of res = (\<lambda>r. if r \<in> set keys
                            then map_option (min_over_present td) (map_of rxndata r)
                            else map_of (AList.update k (min_over_present td txns) acc) r)"
    by blast
  have "associate_loop rxndata td (k # keys) acc = Inr res"
    using k res(1) by (simp add: dict_get_def rxn_min_dist_char)
  moreover have "map_of res = (\<lambda>r. if r \<in> set (k # keys)
                            then map_option (min_over_present td) (map_of rxndata r)
                            else map_of acc r)"
    using res(2) k by (auto simp: update_conv fun_eq_iff)
  ultimately show ?case by blast
qed

text \<open>
  C3. For every reaction of the reaction table, aggregation returns the minimum of the
  distances of the candidates that have an entry in the distance table, the others being
  skipped, and 1000 when no candidate has an entry; the result has the reactions of the
  table as its keys.
\<close>

theorem associate_rxn_dist_min:
  assumes "map_of rxndata rxn = Some txns"
  shows "\<exists>res. associate_rxn_dist rxndata taxdistdata = Inr res \<and>
           fst ` set res = fst ` set rxndata \<and>
           map_of res rxn = Some (min_over_present taxdistdata txns) \<and>
           (present_dists taxdistdata txns = [] \<longrightarrow> map_of res rxn = Some 1000) \<and>
           (present_dists taxdistdata txns \<noteq> [] \<longrightarrow>
              map_of res rxn = Some (Min (set (present_dists taxdistdata txns))))"
proof -
  obtain res where res: "associate_rxn_dist rxndata taxdistdata = Inr res"
    "map_of res = (\<lambda>r. if r \<in> set (map fst rxndata)
                            then map_option (min_over_present taxdistdata) (map_of rxndata r)
                            else map_of [] r)"
    using associate_loop_char[of "map fst rxndata" rxndata taxdistdata "[]"]
    by (auto simp: associate_rxn_dist_def)
  have in_keys: "rxn \<in> fst ` set rxndata"
    using assms map_of_eq_None_iff[of rxndata rxn] by simp
  have v: "map_of res rxn = Some (min_over_present taxdistdata txns)"
    using res(2) in_keys assms by simp
  have "\<And>x. (map_of res x = None) = (map_of rxndata x = None)"
    using res(2) by (simp add: map_of_eq_None_iff)
  then have "\<And>x. (x \<in> fst ` set res) = (x \<in> fst ` set rxndata)"
    by (simp only: map_of_eq_None_iff) simp
  then have d: "fst ` set res = fst ` set rxndata" by blast
  show ?thesis using res(1) v d
    by (auto simp: min_over_present_def split: list.splits)
qed

theorem associate_rxn_dist_min_witness:
  "map_of rxndata_example ''R1'' = Some [''TAX-10'', ''TAX-20'', ''TAX-30''] \<and>
   present_dists taxdist_example [''TAX-10'', ''TAX-20'', ''TAX-30''] = [5, 2, 9] \<and>
   map_of rxndata_example ''R3'' = Some [''TAX-40''] \<and>
   present_dists taxdist_example [''TAX-40''] = [] \<and>
   (\<exists>res. associate_rxn_dist rxndata_example taxdist_example = Inr res \<and>
       map_of res ''R1'' = Some 2 \<and> map_of res ''R3'' = Some 1000)"
proof -
  have m1: "map_of rxndata_example ''R1'' = Some [''TAX-10'', ''TAX-20'', ''TAX-30'']"
    by (simp add: rxndata_example_def)
  have m3: "map_of rxndata_example ''R3'' = Some [''TAX-40'']"
    by (simp add: rxndata_example_def)
  have p1: "present_dists taxdist_example [''TAX-10'', ''TAX-20'', ''TAX-30''] = [5, 2, 9]"
    by (simp add: present_dists_def taxdist_example_def)
  have p3: "present_dists taxdist_example [''TAX-40''] = []"
    by (simp add: present_dists_def taxdist_example_def)
  from associate_rxn_dist_min[OF m1, of taxdist_example]
       associate_rxn_dist_min[OF m3, of taxdist_example]
  show ?thesis using m1 m3 p1 p3 by auto
qed

text \<open>
  C9. The list comprehension, when it does not raise, collects what the skipping loop
  collects; it raises nothing but \<open>KeyError\<close>; and the whole computation for a reaction is
  the skipping loop followed by the minimum, that is the minimum over the candidates
  present in the distance table (or 1000).
\<close>

theorem fast_path_agrees_with_fallback:
  "(case comprehension_dist taxdistdata txns of
      Inr ds \<Rightarrow> skipping_dist taxdistdata txns [] = Inr ds
    | Inl e \<Rightarrow> e = KeyError) \<and>
   rxn_min_dist taxdistdata txns =
     (case skipping_dist taxdistdata txns [] of Inl e \<Rightarrow> Inl e | Inr ds \<Rightarrow> min_or_sentinel ds) \<and>
   rxn_min_dist taxdistdata txns = Inr (min_over_present taxdistdata txns)"
  by (simp add: comprehension_dist_char skipping_dist_char rxn_min_dist_char
      min_or_sentinel_char min_over_present_def)

end
